theory Spec2Isabelle
  imports Main "HOL-Library.Word" "HOL-Library.Signed_Division"
begin

section \<open>The result library: data model\<close>

text \<open>
  The header declares three class templates in namespace \<open>res\<close>: the markers
  \<open>ok<T>\<close> and \<open>err<E>\<close>, and the container \<open>result<T, E>\<close> with its partial
  specialization \<open>result<void, E>\<close>. Values of the parameter types \<open>T\<close> and \<open>E\<close>
  are HOL values of the type variables \<open>'T\<close> and \<open>'E\<close>.

  The only exception the header throws is \<open>std::logic_error\<close>, with a message.
\<close>

datatype exn = logic_error string

text \<open>
  \<open>template <typename E> class err { E error_; ... }\<close> and
  \<open>template <typename T = std::monostate> class ok { T value_; ... }\<close>:
  each marker holds one member. Isabelle admits no name that ends in an underscore, so
  the members \<open>error_\<close> and \<open>value_\<close> of the markers are the selectors \<open>err_error\<close>
  and \<open>ok_value\<close>.
\<close>

datatype 'E err = err (err_error: 'E)

datatype 'T ok = ok (ok_value: 'T)

text \<open>
  \<open>template <typename T, typename E> class result\<close> has the three data members
  \<open>bool successful_ = false; T value_; E error_;\<close>, here the fields \<open>m_successful\<close>,
  \<open>m_value\<close> and \<open>m_error\<close>.
\<close>

record ('T, 'E) result =
  m_successful :: bool
  m_value :: 'T
  m_error :: 'E

text \<open>
  \<open>template <typename E> class result<void, E>\<close> has the two data members
  \<open>bool successful_ = false; E error_;\<close>. The fields are \<open>v_successful\<close> and
  \<open>v_error\<close>, apart from those of the general form.
\<close>

record 'E result_void =
  v_successful :: bool
  v_error :: 'E

section \<open>Construction\<close>

text \<open>
  \<open>result() = default;\<close> (private). The expression \<open>result<T, E>()\<close> of the conversion
  operators builds an object whose discriminant is \<open>false\<close> and whose two payload slots
  hold a default-constructed \<open>T\<close> and a default-constructed \<open>E\<close>. C++ obtains these from
  the types; here they are the parameters \<open>dT\<close> and \<open>dE\<close>, so a result can only be
  built where both are supplied.
\<close>

definition result_default :: "'T \<Rightarrow> 'E \<Rightarrow> ('T, 'E) result" where
  "result_default dT dE = \<lparr>m_successful = False, m_value = dT, m_error = dE\<rparr>"

definition result_void_default :: "'E \<Rightarrow> 'E result_void" where
  "result_void_default dE = \<lparr>v_successful = False, v_error = dE\<rparr>"

text \<open>
  \<open>auto make_successful(T value) -> void { successful_ = true; value_ = std::move(value); }\<close>
  \<open>auto make_unsuccessful(E error) -> void { successful_ = false; error_ = std::move(error); }\<close>
  The object mutated in place is passed in and returned.
\<close>

definition make_successful :: "'T \<Rightarrow> ('T, 'E) result \<Rightarrow> ('T, 'E) result" where
  "make_successful v r = (r\<lparr>m_successful := True\<rparr>)\<lparr>m_value := v\<rparr>"

definition make_unsuccessful :: "'E \<Rightarrow> ('T, 'E) result \<Rightarrow> ('T, 'E) result" where
  "make_unsuccessful e r = (r\<lparr>m_successful := False\<rparr>)\<lparr>m_error := e\<rparr>"

text \<open>
  In the void specialization:
  \<open>auto make_successful() -> void { successful_ = true; }\<close> and \<open>make_unsuccessful\<close> as above.
\<close>

definition make_successful_void :: "'E result_void \<Rightarrow> 'E result_void" where
  "make_successful_void r = r\<lparr>v_successful := True\<rparr>"

definition make_unsuccessful_void :: "'E \<Rightarrow> 'E result_void \<Rightarrow> 'E result_void" where
  "make_unsuccessful_void e r = (r\<lparr>v_successful := False\<rparr>)\<lparr>v_error := e\<rparr>"

text \<open>
  The conversion operators of the markers.
  \<open>err<E>::operator result<T, E>()\<close>:
  \<open>auto res = result<T, E>(); res.make_unsuccessful(error_); return res;\<close>
  \<open>err<E>::operator result<void, E>()\<close>:
  \<open>auto res = result<void, E>(); res.make_unsuccessful(error_); return res;\<close>
\<close>

definition err_to_result :: "'T \<Rightarrow> 'E \<Rightarrow> 'E err \<Rightarrow> ('T, 'E) result" where
  "err_to_result dT dE m = make_unsuccessful (err_error m) (result_default dT dE)"

definition err_to_result_void :: "'E \<Rightarrow> 'E err \<Rightarrow> 'E result_void" where
  "err_to_result_void dE m = make_unsuccessful_void (err_error m) (result_void_default dE)"

text \<open>
  \<open>ok<T>::operator result<T, E>()\<close>:
  \<open>auto res = result<T, E>(); res.make_successful(value_); return res;\<close>
  \<open>ok<T>::operator result<void, E>()\<close>:
  \<open>auto res = result<void, E>(); res.make_successful(); return res;\<close>
\<close>

definition ok_to_result :: "'T \<Rightarrow> 'E \<Rightarrow> 'T ok \<Rightarrow> ('T, 'E) result" where
  "ok_to_result dT dE m = make_successful (ok_value m) (result_default dT dE)"

definition ok_to_result_void :: "'E \<Rightarrow> 'T ok \<Rightarrow> 'E result_void" where
  "ok_to_result_void dE m = make_successful_void (result_void_default dE)"

section \<open>Observers\<close>

text \<open>
  \<open>auto is_ok() const -> bool { return successful_; }\<close>
  \<open>explicit operator bool() const { return is_ok(); }\<close>
  \<open>auto operator!() const -> bool { return !is_ok(); }\<close>
\<close>

definition is_ok :: "('T, 'E) result \<Rightarrow> bool" where
  "is_ok r = m_successful r"

definition operator_bool :: "('T, 'E) result \<Rightarrow> bool" where
  "operator_bool r = is_ok r"

definition operator_not :: "('T, 'E) result \<Rightarrow> bool" where
  "operator_not r = (\<not> is_ok r)"

definition is_ok_void :: "'E result_void \<Rightarrow> bool" where
  "is_ok_void r = v_successful r"

definition operator_bool_void :: "'E result_void \<Rightarrow> bool" where
  "operator_bool_void r = is_ok_void r"

definition operator_not_void :: "'E result_void \<Rightarrow> bool" where
  "operator_not_void r = (\<not> is_ok_void r)"

text \<open>
  \<open>value()\<close>: \<open>if (!is_ok()) { throw std::logic_error("value() called on result with error"); }
  return value_;\<close>
\<close>

definition "value" :: "('T, 'E) result \<Rightarrow> exn + 'T" where
  "value r =
     (if \<not> is_ok r then Inl (logic_error ''value() called on result with error'')
      else Inr (m_value r))"

text \<open>
  \<open>value_or(T &&default_value)\<close>: \<open>if (is_ok()) { return value_; }
  return std::move(default_value);\<close>
\<close>

definition value_or :: "('T, 'E) result \<Rightarrow> 'T \<Rightarrow> 'T" where
  "value_or r default_value = (if is_ok r then m_value r else default_value)"

text \<open>
  \<open>error()\<close>, in both forms: \<open>if (is_ok()) { throw std::logic_error("error() called on
  result with value"); } return error_;\<close>
\<close>

definition error :: "('T, 'E) result \<Rightarrow> exn + 'E" where
  "error r =
     (if is_ok r then Inl (logic_error ''error() called on result with value'')
      else Inr (m_error r))"

definition error_void :: "'E result_void \<Rightarrow> exn + 'E" where
  "error_void r =
     (if is_ok_void r then Inl (logic_error ''error() called on result with value'')
      else Inr (v_error r))"

section \<open>The monadic operation\<close>

text \<open>
  The functor that \<open>map\<close> receives is an arbitrary C++ callable: it may read and change
  state of its own (a counter it increments, say) and it may throw. It is modelled as a
  function of the payload and of that state \<open>'s\<close>, returning either what it throws
  (\<open>Inl\<close>, of a type \<open>'x\<close>) or its result (\<open>Inr\<close>), together with the state it leaves.
  \<open>map\<close> itself catches nothing, so what the functor throws leaves \<open>map\<close> too.

  General form:
  \<open>template <typename F, typename U = std::invoke_result_t<F, T>>
  auto map(F &&functor) const -> result<U, E> {
    if (is_ok()) { return ok<U>(std::forward<F>(functor)(value_)); }
    return err<E>(error_);
  }\<close>
  Both \<open>return\<close> statements go through the conversion operator of the marker into
  \<open>result<U, E>\<close>, which default-constructs a \<open>U\<close> and an \<open>E\<close> (\<open>dU\<close>, \<open>dE\<close>).
\<close>

definition map_result ::
  "'U \<Rightarrow> 'E \<Rightarrow> ('T \<Rightarrow> 's \<Rightarrow> ('x + 'U) \<times> 's) \<Rightarrow> ('T, 'E) result \<Rightarrow> 's
     \<Rightarrow> ('x + ('U, 'E) result) \<times> 's" where
  "map_result dU dE functor r s =
     (if is_ok r then
        (case functor (m_value r) s of
           (Inl x, s') \<Rightarrow> (Inl x, s')
         | (Inr u, s') \<Rightarrow> (Inr (ok_to_result dU dE (ok u)), s'))
      else (Inr (err_to_result dU dE (err (m_error r))), s))"

text \<open>
  Void specialization:
  \<open>template <typename F, typename U = std::invoke_result_t<F>>
  auto map(F &&functor) const -> result<U, E> {
    if (is_ok()) { return ok<U>(std::forward<F>(functor)()); }
    return err<E>(error_);
  }\<close>
  The functor takes no argument.
\<close>

definition map_result_void ::
  "'U \<Rightarrow> 'E \<Rightarrow> ('s \<Rightarrow> ('x + 'U) \<times> 's) \<Rightarrow> 'E result_void \<Rightarrow> 's
     \<Rightarrow> ('x + ('U, 'E) result) \<times> 's" where
  "map_result_void dU dE functor r s =
     (if is_ok_void r then
        (case functor s of
           (Inl x, s') \<Rightarrow> (Inl x, s')
         | (Inr u, s') \<Rightarrow> (Inr (ok_to_result dU dE (ok u)), s'))
      else (Inr (err_to_result dU dE (err (v_error r))), s))"

text \<open>
  A total function \<open>f\<close> from \<open>T\<close> to \<open>U\<close>, as a functor: it returns \<open>f v\<close>, throws nothing
  and leaves the state alone. Likewise a total producer without argument.
\<close>

definition total_functor :: "('T \<Rightarrow> 'U) \<Rightarrow> 'T \<Rightarrow> 's \<Rightarrow> ('x + 'U) \<times> 's" where
  "total_functor f v s = (Inr (f v), s)"

definition total_producer :: "(unit \<Rightarrow> 'U) \<Rightarrow> 's \<Rightarrow> ('x + 'U) \<times> 's" where
  "total_producer f s = (Inr (f ()), s)"

section \<open>The example of the README\<close>

text \<open>
  Modelled from the spec: the class-level factories \<open>Result<T, E>::Ok\<close> and
  \<open>Result<T, E>::Err\<close> that the README's \<open>divide\<close> calls are missing from the header, which
  builds outcomes from the markers only. The spec describes such factories as functions
  that accept what a success or failure marker holds and produce the corresponding
  outcome, so each is the conversion of the marker holding its argument.
\<close>

definition Result_Ok :: "'T \<Rightarrow> 'E \<Rightarrow> 'T \<Rightarrow> ('T, 'E) result" where
  "Result_Ok dT dE v = ok_to_result dT dE (ok v)"

definition Result_Err :: "'T \<Rightarrow> 'E \<Rightarrow> 'E \<Rightarrow> ('T, 'E) result" where
  "Result_Err dT dE e = err_to_result dT dE (err e)"

text \<open>
  C++ \<open>int\<close> is a 32-bit two's complement integer and \<open>a / b\<close> truncates towards zero.
  (For the one quotient that does not fit, \<open>INT_MIN / -1\<close>, C++ leaves the behaviour
  undefined; the model wraps there.)
\<close>

type_synonym cxx_int = "32 word"

definition int_div :: "cxx_int \<Rightarrow> cxx_int \<Rightarrow> cxx_int" where
  "int_div a b = word_of_int (sint a sdiv sint b)"

text \<open>
  \<open>res::Result<int, std::string> divide(int a, int b) {
    if (b == 0) { return res::Result<int, std::string>::Err("Division by zero"); }
    else { return res::Result<int, std::string>::Ok(a / b); }
  }\<close>
  (\<open>divide\<close> is a constant of HOL already, hence \<open>divide_example\<close>.) The
  default-constructed \<open>int\<close> and \<open>std::string\<close> of the unused slots are \<open>0\<close> and the
  empty string.
\<close>

definition divide_example :: "cxx_int \<Rightarrow> cxx_int \<Rightarrow> (cxx_int, string) result" where
  "divide_example a b =
     (if b = 0 then Result_Err 0 [] ''Division by zero''
      else Result_Ok 0 [] (int_div a b))"

section \<open>The compile-time checks on the parameters\<close>

text \<open>
  A template argument is \<open>void\<close> or some other type, known by its name;
  \<open>std::is_same_v<T, void>\<close> is equality with \<open>void\<close>.
\<close>

datatype cxx_type = void | named_type string

text \<open>
  The primary template opens with
  \<open>static_assert(!std::is_same_v<T, void>, "T (value type) must not be void");
  static_assert(!std::is_same_v<E, void>, "E (error type) must not be void");\<close>
  and the specialization with the second of them. Each function returns the messages of
  the assertions that fail; the instantiation is well-formed when there is none.
\<close>

definition result_static_asserts :: "cxx_type \<Rightarrow> cxx_type \<Rightarrow> string list" where
  "result_static_asserts T E =
     (if T = void then [''T (value type) must not be void''] else []) @
     (if E = void then [''E (error type) must not be void''] else [])"

definition result_void_static_asserts :: "cxx_type \<Rightarrow> string list" where
  "result_void_static_asserts E =
     (if E = void then [''E (error type) must not be void''] else [])"

text \<open>
  \<open>template <typename T, typename E> class result;\<close>
  \<open>template <typename E> class result<void, E>;\<close>
  The name \<open>result<T, E>\<close> denotes the partial specialization exactly when \<open>T\<close> is
  \<open>void\<close>, and the primary template otherwise.
\<close>

datatype class_template = primary_template | void_specialization

definition select_template :: "cxx_type \<Rightarrow> class_template" where
  "select_template T = (if T = void then void_specialization else primary_template)"

definition instantiate_result :: "cxx_type \<Rightarrow> cxx_type \<Rightarrow> class_template \<times> string list" where
  "instantiate_result T E =
     (case select_template T of
        primary_template \<Rightarrow> (primary_template, result_static_asserts T E)
      | void_specialization \<Rightarrow> (void_specialization, result_void_static_asserts E))"

section \<open>Facts shared by the proofs\<close>

lemmas conversion_defs =
  ok_to_result_def err_to_result_def ok_to_result_void_def err_to_result_void_def
  make_successful_def make_unsuccessful_def make_successful_void_def
  make_unsuccessful_void_def result_default_def result_void_default_def

lemma is_ok_ok_to_result: "is_ok (ok_to_result dT dE (ok v))"
  by (simp add: conversion_defs is_ok_def)

lemma is_ok_err_to_result: "\<not> is_ok (err_to_result dT dE (err e))"
  by (simp add: conversion_defs is_ok_def)

lemma value_ok_to_result: "value (ok_to_result dT dE (ok v)) = Inr v"
  by (simp add: conversion_defs is_ok_def value_def)

lemma error_err_to_result: "error (err_to_result dT dE (err e)) = Inr e"
  by (simp add: conversion_defs is_ok_def error_def)

lemma is_ok_void_ok_to_result_void: "is_ok_void (ok_to_result_void dE (ok v))"
  by (simp add: conversion_defs is_ok_void_def)

lemma is_ok_void_err_to_result_void: "\<not> is_ok_void (err_to_result_void dE (err e))"
  by (simp add: conversion_defs is_ok_void_def)

lemma error_void_err_to_result_void: "error_void (err_to_result_void dE (err e)) = Inr e"
  by (simp add: conversion_defs is_ok_void_def error_void_def)

lemma value_Inr_iff: "value r = Inr v \<longleftrightarrow> is_ok r \<and> m_value r = v"
  by (simp add: value_def)

lemma error_Inr_iff: "error r = Inr e \<longleftrightarrow> \<not> is_ok r \<and> m_error r = e"
  by (simp add: error_def)

lemma error_void_Inr_iff: "error_void r = Inr e \<longleftrightarrow> \<not> is_ok_void r \<and> v_error r = e"
  by (simp add: error_void_def)

text \<open>The three ways \<open>map\<close> can go: the functor returns, the functor throws, the
  outcome is a failure and the functor is not reached.\<close>

lemma map_result_success:
  "is_ok r \<Longrightarrow> functor (m_value r) s = (Inr u, s') \<Longrightarrow>
   map_result dU dE functor r s = (Inr (ok_to_result dU dE (ok u)), s')"
  by (simp add: map_result_def)

lemma map_result_throw:
  "is_ok r \<Longrightarrow> functor (m_value r) s = (Inl x, s') \<Longrightarrow>
   map_result dU dE functor r s = (Inl x, s')"
  by (simp add: map_result_def)

lemma map_result_failure:
  "\<not> is_ok r \<Longrightarrow>
   map_result dU dE functor r s = (Inr (err_to_result dU dE (err (m_error r))), s)"
  by (simp add: map_result_def)

lemma map_result_void_success:
  "is_ok_void r \<Longrightarrow> functor s = (Inr u, s') \<Longrightarrow>
   map_result_void dU dE functor r s = (Inr (ok_to_result dU dE (ok u)), s')"
  by (simp add: map_result_void_def)

lemma map_result_void_throw:
  "is_ok_void r \<Longrightarrow> functor s = (Inl x, s') \<Longrightarrow>
   map_result_void dU dE functor r s = (Inl x, s')"
  by (simp add: map_result_void_def)

lemma map_result_void_failure:
  "\<not> is_ok_void r \<Longrightarrow>
   map_result_void dU dE functor r s = (Inr (err_to_result dU dE (err (v_error r))), s)"
  by (simp add: map_result_void_def)

text \<open>A functor that never throws gives a \<open>map\<close> that never throws.\<close>

lemma map_result_no_throw:
  assumes "\<forall>v t. \<not> isl (fst (functor v t))"
  shows "\<not> isl (fst (map_result dU dE functor r s))"
proof (cases "is_ok r")
  case True
  obtain y s' where f: "functor (m_value r) s = (y, s')"
    by (cases "functor (m_value r) s")
  with assms have "\<not> isl y"
    by (metis fst_conv)
  then obtain u where "y = Inr u"
    by (cases y) auto
  with f True show ?thesis
    by (simp add: map_result_success)
next
  case False
  then show ?thesis
    by (simp add: map_result_failure)
qed

lemma map_result_void_no_throw:
  assumes "\<forall>t. \<not> isl (fst (functor t))"
  shows "\<not> isl (fst (map_result_void dU dE functor r s))"
proof (cases "is_ok_void r")
  case True
  obtain y s' where f: "functor s = (y, s')"
    by (cases "functor s")
  with assms have "\<not> isl y"
    by (metis fst_conv)
  then obtain u where "y = Inr u"
    by (cases y) auto
  with f True show ?thesis
    by (simp add: map_result_void_success)
next
  case False
  then show ?thesis
    by (simp add: map_result_void_failure)
qed

lemma total_functor_no_throw: "\<not> isl (fst (total_functor f v t))"
  by (simp add: total_functor_def)

lemma total_producer_no_throw: "\<not> isl (fst (total_producer g t))"
  by (simp add: total_producer_def)

section \<open>Conversion from the markers\<close>

text \<open>
  C1. Converting the success marker \<open>ok(v)\<close> into \<open>result<T, E>\<close> gives an outcome for
  which \<open>is_ok()\<close> returns true and \<open>value()\<close> returns \<open>v\<close>, whatever the value and the
  two types (and whatever their default-constructed values) are.
\<close>

theorem ok_conversion_is_ok_value:
  "is_ok (ok_to_result dT dE (ok v)) = True \<and> value (ok_to_result dT dE (ok v)) = Inr v"
  by (simp add: conversion_defs is_ok_def value_def)

text \<open>
  C2. Converting the failure marker \<open>err(e)\<close> into \<open>result<T, E>\<close> gives an outcome for
  which \<open>is_ok()\<close> returns false and \<open>error()\<close> returns \<open>e\<close>, for every error and all
  types; the same holds for the conversion into \<open>result<void, E>\<close>.
\<close>

theorem err_conversion_not_ok_error:
  "is_ok (err_to_result dT dE (err e)) = False
   \<and> error (err_to_result dT dE (err e)) = Inr e
   \<and> is_ok_void (err_to_result_void dE (err e)) = False
   \<and> error_void (err_to_result_void dE (err e)) = Inr e"
  by (simp add: conversion_defs is_ok_def error_def is_ok_void_def error_void_def)

text \<open>
  C10. A success marker holding any value, of any type, converts into
  \<open>result<void, E>\<close> for every \<open>E\<close>: the outcome is a success, and what the marker held
  is gone from it, so that \<open>ok(5)\<close> and the empty \<open>ok()\<close> convert to the same outcome.
\<close>

theorem ok_conversion_void_drops_value:
  "is_ok_void (ok_to_result_void dE (ok v)) = True
   \<and> ok_to_result_void dE (ok v) = \<lparr>v_successful = True, v_error = dE\<rparr>
   \<and> ok_to_result_void dE (ok v) = ok_to_result_void dE (ok w)
   \<and> is_ok_void (ok_to_result_void dE (ok (5 :: 32 word))) = True
   \<and> ok_to_result_void dE (ok (5 :: 32 word)) = ok_to_result_void dE (ok ())"
  by (simp add: conversion_defs is_ok_void_def)

section \<open>The accessors and their contract\<close>

text \<open>
  C3. In both forms of the outcome, \<open>value()\<close> on a failure and \<open>error()\<close> on a success
  throw \<open>std::logic_error\<close>, which is a value of the exception type and not of the error
  type \<open>E\<close>. Every other public operation cannot fail: the matching accessor returns the
  slot; \<open>is_ok\<close>, the conversion to \<open>bool\<close>, the negation and \<open>value_or\<close> return plain
  values, the latter agreeing with \<open>value()\<close> on a success; and \<open>map\<close> throws nothing
  for a total function, indeed for any functor that does not throw itself.
\<close>

theorem accessors_contract:
  "(\<not> is_ok r \<longrightarrow> value r = Inl (logic_error ''value() called on result with error''))
   \<and> (is_ok r \<longrightarrow> error r = Inl (logic_error ''error() called on result with value''))
   \<and> (is_ok_void rv \<longrightarrow>
        error_void rv = Inl (logic_error ''error() called on result with value''))
   \<and> (is_ok r \<longrightarrow> value r = Inr (m_value r))
   \<and> (\<not> is_ok r \<longrightarrow> error r = Inr (m_error r))
   \<and> (\<not> is_ok_void rv \<longrightarrow> error_void rv = Inr (v_error rv))
   \<and> operator_bool r = is_ok r \<and> operator_not r = (\<not> is_ok r)
   \<and> operator_bool_void rv = is_ok_void rv \<and> operator_not_void rv = (\<not> is_ok_void rv)
   \<and> Inr (value_or r d) = (if is_ok r then value r else Inr d)
   \<and> \<not> isl (fst (map_result dU dE
          (total_functor f :: 'T \<Rightarrow> 's \<Rightarrow> ('x + 'U) \<times> 's) r s))
   \<and> \<not> isl (fst (map_result_void dU dE
          (total_producer g :: 's \<Rightarrow> ('x + 'U) \<times> 's) rv s))
   \<and> ((\<forall>v t. \<not> isl (fst (h v t))) \<longrightarrow>
        \<not> isl (fst (map_result dU dE
          (h :: 'T \<Rightarrow> 's \<Rightarrow> ('x + 'U) \<times> 's) r s)))
   \<and> ((\<forall>t. \<not> isl (fst (p t))) \<longrightarrow>
        \<not> isl (fst (map_result_void dU dE
          (p :: 's \<Rightarrow> ('x + 'U) \<times> 's) rv s)))"
  by (simp add: value_def error_def error_void_def operator_bool_def operator_not_def
      operator_bool_void_def operator_not_void_def value_or_def
      map_result_no_throw map_result_void_no_throw
      total_functor_no_throw total_producer_no_throw)

theorem accessors_contract_witness:
  "value (err_to_result (0::int) [] (err ''boom''))
     = Inl (logic_error ''value() called on result with error'')
   \<and> error (ok_to_result (0::int) ''none'' (ok 7))
     = Inl (logic_error ''error() called on result with value'')
   \<and> error_void (ok_to_result_void ''none'' (ok ()))
     = Inl (logic_error ''error() called on result with value'')
   \<and> value (ok_to_result (0::int) ''none'' (ok 7))
     = Inr (m_value (ok_to_result (0::int) ''none'' (ok 7)))
   \<and> error (err_to_result (0::int) [] (err ''boom''))
     = Inr (m_error (err_to_result (0::int) [] (err ''boom'')))
   \<and> error_void (err_to_result_void [] (err ''boom''))
     = Inr (v_error (err_to_result_void [] (err ''boom'')))
   \<and> \<not> isl (fst (map_result (0::int) ''none''
         (\<lambda>(v::int) (n::nat). (Inr (v + 1) :: unit + int, Suc n))
         (ok_to_result 0 ''none'' (ok 7)) 0))
   \<and> \<not> isl (fst (map_result_void (0::int) ''none''
         (\<lambda>n::nat. (Inr 1 :: unit + int, Suc n))
         (ok_to_result_void ''none'' (ok ())) 0))"
proof -
  have bad: "\<not> is_ok (err_to_result (0::int) [] (err ''boom''))"
    by (rule is_ok_err_to_result)
  have good: "is_ok (ok_to_result (0::int) ''none'' (ok 7))"
    by (rule is_ok_ok_to_result)
  have vbad: "\<not> is_ok_void (err_to_result_void [] (err ''boom''))"
    by (rule is_ok_void_err_to_result_void)
  have vgood: "is_ok_void (ok_to_result_void ''none'' (ok ()))"
    by (rule is_ok_void_ok_to_result_void)
  have inc: "\<forall>(v::int) (t::nat). \<not> isl (fst (Inr (v + 1) :: unit + int, Suc t))"
    by simp
  have one: "\<forall>t::nat. \<not> isl (fst (Inr 1 :: unit + int, Suc t))"
    by simp
  note on_failure = accessors_contract
    [where r = "err_to_result (0::int) [] (err ''boom'')"
       and rv = "err_to_result_void [] (err ''boom'')"
       and d = 0 and dU = "0::int" and dE = "''none''" and s = "0::nat"
       and f = "\<lambda>v::int. v + 1" and g = "\<lambda>_. 1"
       and h = "\<lambda>(v::int) (n::nat). (Inr (v + 1) :: unit + int, Suc n)"
       and p = "\<lambda>n::nat. (Inr 1 :: unit + int, Suc n)"]
  note on_success = accessors_contract
    [where r = "ok_to_result (0::int) ''none'' (ok 7)"
       and rv = "ok_to_result_void ''none'' (ok ())"
       and d = 0 and dU = "0::int" and dE = "''none''" and s = "0::nat"
       and f = "\<lambda>v::int. v + 1" and g = "\<lambda>_. 1"
       and h = "\<lambda>(v::int) (n::nat). (Inr (v + 1) :: unit + int, Suc n)"
       and p = "\<lambda>n::nat. (Inr 1 :: unit + int, Suc n)"]
  from on_failure bad vbad on_success good vgood inc one show ?thesis
    by simp
qed

text \<open>
  C6. \<open>value_or(d)\<close> returns the held payload when the outcome is a success and the
  supplied default \<open>d\<close> when it is a failure; its result is a plain value of \<open>T\<close>, it
  has no way to fail.
\<close>

theorem value_or_payload_or_default:
  "(value r = Inr v \<longrightarrow> value_or r d = v)
   \<and> (\<not> is_ok r \<longrightarrow> value_or r d = d)
   \<and> value_or (ok_to_result dT dE (ok v)) d = v
   \<and> value_or (err_to_result dT dE (err e)) d = d"
proof -
  have "value_or (ok_to_result dT dE (ok v)) d = v"
    by (simp add: value_or_def is_ok_ok_to_result) (simp add: conversion_defs)
  moreover have "value_or (err_to_result dT dE (err e)) d = d"
    by (simp add: value_or_def is_ok_err_to_result)
  ultimately show ?thesis
    by (simp add: value_Inr_iff value_or_def)
qed

theorem value_or_payload_or_default_witness:
  "value_or (ok_to_result (0::int) ''none'' (ok 7)) 3 = 7
   \<and> value_or (err_to_result (0::int) [] (err ''boom'')) 3 = 3"
proof -
  have good: "value (ok_to_result (0::int) ''none'' (ok 7)) = Inr 7"
    by (rule value_ok_to_result)
  have bad: "\<not> is_ok (err_to_result (0::int) [] (err ''boom''))"
    by (rule is_ok_err_to_result)
  have "value_or (ok_to_result (0::int) ''none'' (ok 7)) 3 = 7"
    by (rule value_or_payload_or_default [THEN conjunct1, rule_format, OF good])
  moreover have "value_or (err_to_result (0::int) [] (err ''boom'')) 3 = 3"
    by (rule value_or_payload_or_default
        [THEN conjunct2, THEN conjunct1, rule_format, OF bad])
  ultimately show ?thesis
    by simp
qed

section \<open>The monadic operation on the two kinds of outcome\<close>

text \<open>
  C4. On a success outcome holding \<open>v\<close>, \<open>map(f)\<close> for a total function \<open>f\<close> returns the
  conversion of \<open>ok(f(v))\<close>, a success outcome of \<open>result<U, E>\<close> holding \<open>f(v)\<close>. In the
  void specialization \<open>f\<close> is called without argument and its result is wrapped the
  same way.
\<close>

theorem map_on_success:
  "(value r = Inr v \<longrightarrow>
      map_result dU dE (total_functor f :: 'T \<Rightarrow> 's \<Rightarrow> ('x + 'U) \<times> 's) r s
        = (Inr (ok_to_result dU dE (ok (f v))), s))
   \<and> (is_ok_void rv \<longrightarrow>
      map_result_void dU dE (total_producer g :: 's \<Rightarrow> ('x + 'U) \<times> 's) rv s
        = (Inr (ok_to_result dU dE (ok (g ()))), s))
   \<and> is_ok (ok_to_result dU dE (ok u)) \<and> value (ok_to_result dU dE (ok u)) = Inr u"
  by (simp add: value_Inr_iff map_result_success map_result_void_success total_functor_def
      total_producer_def is_ok_ok_to_result value_ok_to_result)

theorem map_on_success_witness:
  "map_result (0::int) ''none'' (total_functor (\<lambda>v::int. v * 2))
       (ok_to_result 0 ''none'' (ok 21)) (0::nat)
     = (Inr (ok_to_result 0 ''none'' (ok 42)) :: unit + (int, string) result, 0)
   \<and> map_result_void (0::int) ''none'' (total_producer (\<lambda>_. 42))
       (ok_to_result_void ''none'' (ok ())) (0::nat)
     = (Inr (ok_to_result 0 ''none'' (ok 42)) :: unit + (int, string) result, 0)
   \<and> value (ok_to_result (0::int) ''none'' (ok 42)) = Inr 42"
proof -
  have h: "value (ok_to_result (0::int) ''none'' (ok 21)) = Inr 21"
    by (rule value_ok_to_result)
  have hv: "is_ok_void (ok_to_result_void ''none'' (ok ()))"
    by (rule is_ok_void_ok_to_result_void)
  from h hv map_on_success
    [where 'x = unit and r = "ok_to_result (0::int) ''none'' (ok 21)" and v = 21
       and f = "\<lambda>v::int. v * 2" and dU = "0::int" and dE = "''none''" and s = "0::nat"
       and rv = "ok_to_result_void ''none'' (ok ())" and g = "\<lambda>_. 42" and u = 42]
  show ?thesis
    by simp
qed

text \<open>
  C5. On a failure outcome holding \<open>e\<close>, \<open>map\<close> returns the conversion of \<open>err(e)\<close>, a
  failure outcome of the new value type holding the same \<open>e\<close>, whatever the functor is:
  the functor does not occur in what is returned, and the state it could have changed
  is returned as it was, so the functor was not invoked. Both forms behave alike.
\<close>

theorem map_on_failure:
  "(error r = Inr e \<longrightarrow>
      map_result dU dE h r s = (Inr (err_to_result dU dE (err e)), s))
   \<and> (error_void rv = Inr e \<longrightarrow>
      map_result_void dU dE p rv s = (Inr (err_to_result dU dE (err e)), s))
   \<and> is_ok (err_to_result dU dE (err e)) = False
   \<and> error (err_to_result dU dE (err e)) = Inr e"
  by (simp add: error_Inr_iff error_void_Inr_iff map_result_failure map_result_void_failure
      is_ok_err_to_result error_err_to_result)

theorem map_on_failure_witness:
  "map_result (0::int) [] (\<lambda>(v::int) (n::nat). (Inr (v + 1) :: unit + int, Suc n))
       (err_to_result 0 [] (err ''boom'')) 0
     = (Inr (err_to_result 0 [] (err ''boom'')), 0)
   \<and> map_result_void (0::int) [] (\<lambda>n::nat. (Inl () :: unit + int, Suc n))
       (err_to_result_void [] (err ''boom'')) 0
     = (Inr (err_to_result 0 [] (err ''boom'')), 0)"
proof -
  have h: "error (err_to_result (0::int) [] (err ''boom'')) = Inr ''boom''"
    by (rule error_err_to_result)
  have hv: "error_void (err_to_result_void [] (err ''boom'')) = Inr ''boom''"
    by (rule error_void_err_to_result_void)
  from h hv map_on_failure
    [where r = "err_to_result (0::int) [] (err ''boom'')" and e = "''boom''"
       and dU = "0::int" and dE = "[]" and s = "0::nat"
       and h = "\<lambda>(v::int) (n::nat). (Inr (v + 1) :: unit + int, Suc n)"
       and rv = "err_to_result_void [] (err ''boom'')"
       and p = "\<lambda>n::nat. (Inl () :: unit + int, Suc n)"]
  show ?thesis
    by simp
qed

section \<open>The two payload slots\<close>

text \<open>
  C9. A general-form outcome holds both payload slots at all times. The conversion of
  a failure marker leaves the default-constructed \<open>T\<close> in the value slot, the conversion
  of a success marker leaves the default-constructed \<open>E\<close> in the error slot, and the
  outcome cannot be built without the two (they are arguments of every function that
  builds one). Yet the slot that the discriminant does not select is never exposed:
  whatever it holds, every public operation returns the same.
\<close>

theorem unselected_slot_default_and_hidden:
  "m_value (err_to_result dT dE (err e)) = dT
   \<and> m_error (ok_to_result dT dE (ok v)) = dE
   \<and> m_value (result_default dT dE) = dT \<and> m_error (result_default dT dE) = dE
   \<and> (is_ok r \<longrightarrow>
        is_ok (r\<lparr>m_error := e'\<rparr>) = is_ok r
        \<and> operator_bool (r\<lparr>m_error := e'\<rparr>) = operator_bool r
        \<and> operator_not (r\<lparr>m_error := e'\<rparr>) = operator_not r
        \<and> value (r\<lparr>m_error := e'\<rparr>) = value r
        \<and> value_or (r\<lparr>m_error := e'\<rparr>) d = value_or r d
        \<and> error (r\<lparr>m_error := e'\<rparr>) = error r
        \<and> map_result dU dE' h (r\<lparr>m_error := e'\<rparr>) s = map_result dU dE' h r s)
   \<and> (\<not> is_ok r \<longrightarrow>
        is_ok (r\<lparr>m_value := v'\<rparr>) = is_ok r
        \<and> operator_bool (r\<lparr>m_value := v'\<rparr>) = operator_bool r
        \<and> operator_not (r\<lparr>m_value := v'\<rparr>) = operator_not r
        \<and> value (r\<lparr>m_value := v'\<rparr>) = value r
        \<and> value_or (r\<lparr>m_value := v'\<rparr>) d = value_or r d
        \<and> error (r\<lparr>m_value := v'\<rparr>) = error r
        \<and> map_result dU dE' h (r\<lparr>m_value := v'\<rparr>) s = map_result dU dE' h r s)"
proof -
  have slots: "m_value (err_to_result dT dE (err e)) = dT"
    "m_error (ok_to_result dT dE (ok v)) = dE"
    "m_value (result_default dT dE) = dT" "m_error (result_default dT dE) = dE"
    by (simp_all add: conversion_defs)
  have success: "is_ok r \<longrightarrow>
        is_ok (r\<lparr>m_error := e'\<rparr>) = is_ok r
        \<and> operator_bool (r\<lparr>m_error := e'\<rparr>) = operator_bool r
        \<and> operator_not (r\<lparr>m_error := e'\<rparr>) = operator_not r
        \<and> value (r\<lparr>m_error := e'\<rparr>) = value r
        \<and> value_or (r\<lparr>m_error := e'\<rparr>) d = value_or r d
        \<and> error (r\<lparr>m_error := e'\<rparr>) = error r
        \<and> map_result dU dE' h (r\<lparr>m_error := e'\<rparr>) s = map_result dU dE' h r s"
    by (simp add: is_ok_def operator_bool_def operator_not_def value_def value_or_def
        error_def map_result_def)
  have failure: "\<not> is_ok r \<longrightarrow>
        is_ok (r\<lparr>m_value := v'\<rparr>) = is_ok r
        \<and> operator_bool (r\<lparr>m_value := v'\<rparr>) = operator_bool r
        \<and> operator_not (r\<lparr>m_value := v'\<rparr>) = operator_not r
        \<and> value (r\<lparr>m_value := v'\<rparr>) = value r
        \<and> value_or (r\<lparr>m_value := v'\<rparr>) d = value_or r d
        \<and> error (r\<lparr>m_value := v'\<rparr>) = error r
        \<and> map_result dU dE' h (r\<lparr>m_value := v'\<rparr>) s = map_result dU dE' h r s"
    by (simp add: is_ok_def operator_bool_def operator_not_def value_def value_or_def
        error_def map_result_def)
  from slots success failure show ?thesis
    by blast
qed

theorem unselected_slot_default_and_hidden_witness:
  "m_value (err_to_result (0::int) [] (err ''boom'')) = 0
   \<and> m_error (ok_to_result (0::int) ''none'' (ok 7)) = ''none''
   \<and> value ((ok_to_result (0::int) ''none'' (ok 7))\<lparr>m_error := ''stale''\<rparr>)
       = value (ok_to_result (0::int) ''none'' (ok 7))
   \<and> error ((ok_to_result (0::int) ''none'' (ok 7))\<lparr>m_error := ''stale''\<rparr>)
       = error (ok_to_result (0::int) ''none'' (ok 7))
   \<and> error ((err_to_result (0::int) [] (err ''boom''))\<lparr>m_value := 99\<rparr>)
       = error (err_to_result (0::int) [] (err ''boom''))
   \<and> value ((err_to_result (0::int) [] (err ''boom''))\<lparr>m_value := 99\<rparr>)
       = value (err_to_result (0::int) [] (err ''boom''))
   \<and> value_or ((err_to_result (0::int) [] (err ''boom''))\<lparr>m_value := 99\<rparr>) 3
       = value_or (err_to_result (0::int) [] (err ''boom'')) 3"
proof -
  have good: "is_ok (ok_to_result (0::int) ''none'' (ok 7))"
    by (rule is_ok_ok_to_result)
  have bad: "\<not> is_ok (err_to_result (0::int) [] (err ''boom''))"
    by (rule is_ok_err_to_result)
  note on_success = unselected_slot_default_and_hidden
    [where r = "ok_to_result (0::int) ''none'' (ok 7)" and e' = "''stale''" and v' = 99
       and dT = "0::int" and dE = "''none''" and e = "''boom''" and v = 7 and d = 3
       and dU = "0::int" and dE' = "[] :: string" and s = "0::nat"
       and h = "\<lambda>(v::int) (n::nat). (Inr (v + 1) :: unit + int, Suc n)"]
  note on_failure = unselected_slot_default_and_hidden
    [where r = "err_to_result (0::int) [] (err ''boom'')" and e' = "''stale''" and v' = 99
       and dT = "0::int" and dE = "[] :: string" and e = "''boom''" and v = 7 and d = 3
       and dU = "0::int" and dE' = "[] :: string" and s = "0::nat"
       and h = "\<lambda>(v::int) (n::nat). (Inr (v + 1) :: unit + int, Suc n)"]
  from on_success good
  have 2: "m_error (ok_to_result (0::int) ''none'' (ok 7)) = ''none''"
    and 3: "value ((ok_to_result (0::int) ''none'' (ok 7))\<lparr>m_error := ''stale''\<rparr>)
       = value (ok_to_result (0::int) ''none'' (ok 7))"
    and 4: "error ((ok_to_result (0::int) ''none'' (ok 7))\<lparr>m_error := ''stale''\<rparr>)
       = error (ok_to_result (0::int) ''none'' (ok 7))"
    by blast+
  from on_failure bad
  have 1: "m_value (err_to_result (0::int) [] (err ''boom'')) = 0"
    and 5: "error ((err_to_result (0::int) [] (err ''boom''))\<lparr>m_value := 99\<rparr>)
       = error (err_to_result (0::int) [] (err ''boom''))"
    and 6: "value ((err_to_result (0::int) [] (err ''boom''))\<lparr>m_value := 99\<rparr>)
       = value (err_to_result (0::int) [] (err ''boom''))"
    and 7: "value_or ((err_to_result (0::int) [] (err ''boom''))\<lparr>m_value := 99\<rparr>) 3
       = value_or (err_to_result (0::int) [] (err ''boom'')) 3"
    by blast+
  from 1 2 3 4 5 6 7 show ?thesis
    by (intro conjI)
qed

section \<open>The example and the compile-time checks\<close>

text \<open>
  C7. The example of the README: \<open>divide(10, 2)\<close> returns a success outcome, \<open>is_ok()\<close>
  is true and \<open>value()\<close> is \<open>5\<close>; \<open>divide(10, 0)\<close> returns a failure outcome, \<open>is_ok()\<close>
  is false and \<open>error()\<close> is the string \<open>Division by zero\<close>.
\<close>

theorem divide_example_scenarios:
  "is_ok (divide_example 10 2) = True
   \<and> value (divide_example 10 2) = Inr 5
   \<and> is_ok (divide_example 10 0) = False
   \<and> error (divide_example 10 0) = Inr ''Division by zero''"
  by (simp add: divide_example_def Result_Ok_def Result_Err_def int_div_def
      is_ok_ok_to_result is_ok_err_to_result value_ok_to_result error_err_to_result)

text \<open>
  C8. The general form cannot be instantiated with \<open>void\<close>: the assertions of the
  primary template pass exactly when neither \<open>T\<close> nor \<open>E\<close> is \<open>void\<close>, the name
  \<open>result<T, E>\<close> denotes the primary template exactly when \<open>T\<close> is not \<open>void\<close>, and
  \<open>result<void, E>\<close> is the specialization, well-formed exactly when \<open>E\<close> is not
  \<open>void\<close>.
\<close>

theorem general_form_excludes_void:
  "(result_static_asserts T E = []) = (T \<noteq> void \<and> E \<noteq> void)
   \<and> (fst (instantiate_result T E) = primary_template) = (T \<noteq> void)
   \<and> (instantiate_result T E = (primary_template, [])) = (T \<noteq> void \<and> E \<noteq> void)
   \<and> (instantiate_result void E = (void_specialization, [])) = (E \<noteq> void)
   \<and> result_static_asserts void E \<noteq> [] \<and> result_static_asserts T void \<noteq> []"
  by (auto simp add: result_static_asserts_def result_void_static_asserts_def
      instantiate_result_def select_template_def)

end
